theory Spec2Isabelle
  imports Main "HOL-Library.Word"
begin

unbundle bit_operations_syntax

section \<open>The device monitor library (src/bluealsalib/bluealsa.c)\<close>

subsection \<open>Data\<close>

text \<open>
  A Bluetooth address (\<open>bdaddr_t\<close>) is six bytes; \<open>bacmp\<close> is \<open>memcmp\<close> on them, so
  \<open>bacmp a b == 0\<close> is equality of the 48-bit values.
\<close>

type_synonym bdaddr = "48 word"

text \<open>The enum of bluealsa.h, in its order (\<open>BA_TYPE_NULL = 0\<close>).\<close>

datatype bluezalsa_type = BA_TYPE_NULL | BA_A2DP | BA_SCO

text \<open>
  Modelled from the spec: \<open>struct ba_msg_transport\<close> and the stream directions are declared
  in shared/ctl-proto.h, which is not under src/. The glossary gives a transport a remote
  address, a profile, a codec, channels, a rate and a stream direction (capture, playback or
  duplex); the code under src/ reads \<open>addr\<close>, \<open>type\<close> and \<open>stream\<close> and writes \<open>stream\<close>
  and \<open>addr\<close>. The profile of a transport is compared with \<open>h->type\<close> directly, so both
  use the one enum.
\<close>

datatype ba_pcm_stream = BA_PCM_STREAM_PLAYBACK | BA_PCM_STREAM_CAPTURE | BA_PCM_STREAM_DUPLEX

record ba_msg_transport =
  t_addr :: bdaddr
  t_type :: bluezalsa_type
  t_stream :: ba_pcm_stream
  t_codec :: nat
  t_channels :: nat
  t_sampling :: nat

text \<open>
  \<open>struct bluezalsa_handle\<close>. A null \<open>addr\<close> pointer is \<open>None\<close>. The interface name and the
  thread handle are read by no function modelled here; the mutex is represented by the
  \<open>Lock\<close> and \<open>Unlock\<close> events below. A handle value is the pointee of a valid pointer: the
  \<open>if (!h)\<close> branch of each function, taken for a null pointer only, has no counterpart.
\<close>

record bluezalsa_handle =
  ba_fd :: int
  event_fd :: int
  snd_fd :: int
  client_event_fd :: int
  addr :: "bdaddr option"
  type :: bluezalsa_type
  transport :: ba_msg_transport

text \<open>
  What a function does to the outside world, in program order. \<open>Snd_fd_store old new\<close> marks
  an assignment to \<open>h->snd_fd\<close> (it changes the field when \<open>old \<noteq> new\<close>); \<open>Notify v\<close> is
  \<open>write(h->client_event_fd, &u, 8)\<close> with the eight bytes \<open>v\<close>; \<open>Read_fd fd n\<close> is a
  \<open>read\<close> of at most \<open>n\<close> bytes.
\<close>

datatype effect =
    Lock
  | Unlock
  | Free_addr
  | Daemon_get_transports int
  | Daemon_open_transport int ba_msg_transport
  | Daemon_close_transport int ba_msg_transport
  | Close_fd int
  | Snd_fd_store int int
  | Notify "64 word"
  | Poll int int
  | Read_fd int "64 word"

text \<open>
  The answers of the world to one call: \<open>str2ba\<close> of libbluetooth (\<open>None\<close> for a return
  other than 0), whether \<open>malloc\<close> succeeds, the daemon's reply to
  \<open>bluealsa_get_transports\<close> (\<open>None\<close> for -1), the descriptor \<open>bluealsa_open_transport\<close>
  returns (-1 on failure), and the content of the uninitialised local \<open>uint64_t u\<close> that
  \<open>update_device_attach_state\<close> writes to \<open>client_event_fd\<close>.
\<close>

record ba_env =
  str2ba :: "string \<Rightarrow> bdaddr option"
  malloc_ok :: bool
  get_transports :: "ba_msg_transport list option"
  open_transport :: int
  stack_u :: "64 word"

subsection \<open>device_detach\<close>

definition device_detach :: "bluezalsa_handle \<Rightarrow> int \<times> bluezalsa_handle \<times> effect list" where
  "device_detach h =
     (if addr h = None then (0, h, [])
      else if snd_fd h = -1 then (0, h, [])
      else (0, h\<lparr>snd_fd := -1\<rparr>,
            [Daemon_close_transport (ba_fd h) (transport h),
             Close_fd (snd_fd h),
             Snd_fd_store (snd_fd h) (-1)]))"

subsection \<open>update_device_attach_state\<close>

text \<open>
  The matching loop (lines 153 to 180). \<open>first\<close> is \<open>transports[0]\<close>: the address test of
  line 175 reads \<open>transports->addr\<close>, the address of the first element of the array, whatever
  \<open>idx\<close> is; \<open>t\<close> is \<open>transports[idx]\<close>. The result is the \<open>idx\<close> at the \<open>break\<close>, or \<open>None\<close>
  when the loop ends with \<open>matched\<close> false.
\<close>

fun match_from ::
  "bdaddr \<Rightarrow> bluezalsa_type \<Rightarrow> ba_msg_transport \<Rightarrow> ba_msg_transport list \<Rightarrow> nat \<Rightarrow> nat option"
where
  "match_from a ty first [] idx = None"
| "match_from a ty first (t # ts) idx =
     (if t_type t \<noteq> ty then match_from a ty first ts (Suc idx)
      else if t_stream t \<noteq> BA_PCM_STREAM_CAPTURE \<and> t_stream t \<noteq> BA_PCM_STREAM_DUPLEX
        then match_from a ty first ts (Suc idx)
      else if a = t_addr first then Some idx
      else match_from a ty first ts (Suc idx))"

definition find_match ::
  "bdaddr \<Rightarrow> bluezalsa_type \<Rightarrow> ba_msg_transport list \<Rightarrow> nat option" where
  "find_match a ty transports =
     (case transports of [] \<Rightarrow> None | first # _ \<Rightarrow> match_from a ty first transports 0)"

text \<open>
  The selection the sentence of the specification describes: the first transport of the list
  whose type is the bound type, whose stream is capture or duplex and whose own address is
  the bound address.
\<close>

fun spec_match_from ::
  "bdaddr \<Rightarrow> bluezalsa_type \<Rightarrow> ba_msg_transport list \<Rightarrow> nat \<Rightarrow> nat option"
where
  "spec_match_from a ty [] idx = None"
| "spec_match_from a ty (t # ts) idx =
     (if t_type t = ty
         \<and> (t_stream t = BA_PCM_STREAM_CAPTURE \<or> t_stream t = BA_PCM_STREAM_DUPLEX)
         \<and> t_addr t = a
      then Some idx else spec_match_from a ty ts (Suc idx))"

text \<open>
  The function itself. The return value is \<open>ret\<close>: -1 at the early exits, the number of
  transports after \<open>bluealsa_get_transports\<close> succeeded (the no-match exit and the failed
  open leave through \<open>failed_locked\<close> and \<open>failed\<close> with it), 0 at \<open>done\<close>. The exit of
  line 201 jumps to \<open>failed\<close>, past the unlock.
\<close>

definition update_device_attach_state ::
  "ba_env \<Rightarrow> bluezalsa_handle \<Rightarrow> int \<times> bluezalsa_handle \<times> effect list" where
  "update_device_attach_state env h =
     (case addr h of
        None \<Rightarrow> (-1, h, [Lock, Unlock])
      | Some a \<Rightarrow>
          if ba_fd h = -1 then (-1, h, [Lock, Unlock])
          else
            (case get_transports env of
               None \<Rightarrow> (-1, h, [Lock, Daemon_get_transports (ba_fd h), Unlock])
             | Some transports \<Rightarrow>
                 (case find_match a (type h) transports of
                    None \<Rightarrow>
                      (case device_detach h of
                         (_, h', es) \<Rightarrow>
                           (int (length transports), h',
                            [Lock, Daemon_get_transports (ba_fd h)] @ es @ [Unlock]))
                  | Some idx \<Rightarrow>
                      if snd_fd h \<noteq> -1
                      then (0, h, [Lock, Daemon_get_transports (ba_fd h), Unlock])
                      else
                        (let tr = (transports ! idx)\<lparr>t_stream := BA_PCM_STREAM_CAPTURE\<rparr>;
                             fd = open_transport env
                         in if fd = -1
                            then (int (length transports), h\<lparr>snd_fd := -1\<rparr>,
                                  [Lock, Daemon_get_transports (ba_fd h),
                                   Daemon_open_transport (ba_fd h) tr,
                                   Snd_fd_store (snd_fd h) (-1)])
                            else (0, h\<lparr>snd_fd := fd, transport := tr\<lparr>t_addr := a\<rparr>\<rparr>,
                                  [Lock, Daemon_get_transports (ba_fd h),
                                   Daemon_open_transport (ba_fd h) tr,
                                   Snd_fd_store (snd_fd h) fd,
                                   Notify (stack_u env),
                                   Unlock])))))"

subsection \<open>bluezalsa_set_device\<close>

text \<open>
  Lines 338 to 346: the part of \<open>bluezalsa_set_device\<close> that releases the bound address.
  It asks the daemon to close the transport and stores -1 in \<open>snd_fd\<close>; it does not call
  \<open>close\<close> on the descriptor.
\<close>

definition release_bound :: "bluezalsa_handle \<Rightarrow> bluezalsa_handle \<times> effect list" where
  "release_bound h =
     (if addr h = None then (h, [])
      else (h\<lparr>addr := None, snd_fd := -1\<rparr>,
            [Free_addr,
             Daemon_close_transport (ba_fd h) (transport h),
             Snd_fd_store (snd_fd h) (-1)]))"

text \<open>
  The address argument is \<open>None\<close> for a null pointer. After the unlock the function calls
  \<open>update_device_attach_state\<close> and ignores what it returns.
\<close>

definition bluezalsa_set_device ::
  "ba_env \<Rightarrow> bluezalsa_handle \<Rightarrow> string option \<Rightarrow> bluezalsa_type
     \<Rightarrow> int \<times> bluezalsa_handle \<times> effect list" where
  "bluezalsa_set_device env h a ty =
     (if ty \<noteq> BA_A2DP \<and> ty \<noteq> BA_SCO then (-1, h, [])
      else
        (case release_bound h of
           (h1, es1) \<Rightarrow>
             (case a of
                None \<Rightarrow> (0, h1\<lparr>type := ty\<rparr>, [Lock] @ es1 @ [Unlock])
              | Some s \<Rightarrow>
                  if \<not> malloc_ok env
                  then (-1, h1\<lparr>addr := None\<rparr>, [Lock] @ es1 @ [Unlock])
                  else
                    (case str2ba env s of
                       None \<Rightarrow> (-1, h1\<lparr>addr := None\<rparr>, [Lock] @ es1 @ [Free_addr, Unlock])
                     | Some b \<Rightarrow>
                         (case update_device_attach_state env (h1\<lparr>addr := Some b, type := ty\<rparr>) of
                            (_, h2, es2) \<Rightarrow> (0, h2, [Lock] @ es1 @ [Unlock] @ es2))))))"

text \<open>A descriptor that was open before a call is still open after it when no \<open>close\<close> of it happened.\<close>

definition closed_by :: "effect list \<Rightarrow> int \<Rightarrow> bool" where
  "closed_by es fd = (Close_fd fd \<in> set es)"

subsection \<open>bluezalsa_readi\<close>

text \<open>The event bits of poll.h on Linux; \<open>revents\<close> is a \<open>short\<close>.\<close>

definition POLLIN :: "16 word" where "POLLIN = 0x0001"
definition POLLHUP :: "16 word" where "POLLHUP = 0x0010"

text \<open>
  What a \<open>read\<close> or \<open>write\<close> returns: -1 with \<open>errno == EINTR\<close>, -1 with another
  \<open>errno\<close>, or a number of bytes.
\<close>

datatype io_res = Eintr | Eother | Ret nat

fun io_ret :: "io_res \<Rightarrow> int" where
  "io_ret Eintr = -1"
| "io_ret Eother = -1"
| "io_ret (Ret n) = int n"

text \<open>
  Lines 425 to 427: \<open>read\<close> is called again while it fails with \<open>EINTR\<close>. The result is what
  the last call returned and how many calls were made; \<open>None\<close> when the answers run out
  before one is not \<open>EINTR\<close>.
\<close>

fun read_retry :: "io_res list \<Rightarrow> (io_res \<times> nat) option" where
  "read_retry [] = None"
| "read_retry (Eintr # rs) =
     (case read_retry rs of None \<Rightarrow> None | Some (r, n) \<Rightarrow> Some (r, Suc n))"
| "read_retry (r # rs) = Some (r, 1)"

text \<open>
  One pass from the label \<open>again\<close>: what \<open>poll\<close> returns and reports for \<open>snd_fd\<close>
  (\<open>pfds[0]\<close>) and \<open>client_event_fd\<close> (\<open>pfds[1]\<close>), what the reads of
  \<open>client_event_fd\<close> return, and what the read of \<open>snd_fd\<close> returns.
\<close>

record poll_round =
  poll_res :: int
  snd_revents :: "16 word"
  ev_revents :: "16 word"
  ev_reads :: "io_res list"
  snd_read :: io_res

text \<open>
  The call returns a value, or it is still inside \<open>poll\<close> (or a read) when the recorded
  answers are used up: with the timeout -1 the function blocks until something happens.
\<close>

datatype readi_outcome =
    Returned int bluezalsa_handle "effect list"
  | Blocked bluezalsa_handle "effect list"

text \<open>
  The loop from \<open>again\<close> on. \<open>ret\<close> is the local of that name: the value returned at
  \<open>failed\<close> is whatever it holds. The read of \<open>snd_fd\<close> asks for \<open>size * sizeof(int16_t)\<close>
  bytes, computed in \<open>size_t\<close>; the argument \<open>size\<close> is \<open>sz\<close> here.
\<close>

fun readi_again ::
  "poll_round list \<Rightarrow> 64 word \<Rightarrow> int \<Rightarrow> bluezalsa_handle \<Rightarrow> effect list \<Rightarrow> readi_outcome"
where
  "readi_again [] sz ret h es = Blocked h es"
| "readi_again (r # rs) sz ret h es =
     (let es1 = es @ [Poll (snd_fd h) (client_event_fd h)] in
      if poll_res r = -1 then Returned ret h es1
      else if poll_res r = 0 then readi_again rs sz ret h es1
      else if snd_revents r AND POLLHUP \<noteq> 0 then
        (case device_detach h of (_, h', es') \<Rightarrow> readi_again rs sz ret h' (es1 @ es'))
      else if ev_revents r AND POLLIN \<noteq> 0 then
        (case read_retry (ev_reads r) of
           None \<Rightarrow> Blocked h es1
         | Some (x, n) \<Rightarrow>
             (let es2 = es1 @ replicate n (Read_fd (client_event_fd h) 8) in
              if io_ret x \<noteq> 8 then Returned (io_ret x) h es2
              else if snd_revents r AND POLLIN = 0 then readi_again rs sz 8 h es2
              else
                (case snd_read r of
                   Ret n \<Rightarrow> Returned (int n) h (es2 @ [Read_fd (snd_fd h) (sz * 2)])
                 | _ \<Rightarrow> readi_again rs sz 8 h (es2 @ [Read_fd (snd_fd h) (sz * 2)]))))
      else if snd_revents r AND POLLIN = 0 then readi_again rs sz ret h es1
      else
        (case snd_read r of
           Ret n \<Rightarrow> Returned (int n) h (es1 @ [Read_fd (snd_fd h) (sz * 2)])
         | _ \<Rightarrow> readi_again rs sz ret h (es1 @ [Read_fd (snd_fd h) (sz * 2)])))"

definition bluezalsa_readi ::
  "poll_round list \<Rightarrow> bluezalsa_handle \<Rightarrow> 64 word \<Rightarrow> readi_outcome" where
  "bluezalsa_readi rounds h sz = readi_again rounds sz 0 h []"

subsection \<open>Properties of a sequence of events\<close>





subsection \<open>Sequences of calls\<close>

text \<open>
  A client and the monitor thread act on the handle through these entry points: the client
  calls \<open>bluezalsa_set_device\<close> and \<open>bluezalsa_readi\<close>, the monitor thread calls
  \<open>update_device_attach_state\<close> on every event. What an observer outside the library sees
  of a call is the value it returns (\<open>None\<close> while it blocks) and its events; the handle
  is an opaque pointer.
\<close>

datatype call =
    Call_set_device ba_env "string option" bluezalsa_type
  | Call_refresh ba_env
  | Call_readi "poll_round list" "64 word"

type_synonym observation = "int option \<times> effect list"

fun exec_call :: "call \<Rightarrow> bluezalsa_handle \<Rightarrow> observation \<times> bluezalsa_handle" where
  "exec_call (Call_set_device env a ty) h =
     (case bluezalsa_set_device env h a ty of (r, h', es) \<Rightarrow> ((Some r, es), h'))"
| "exec_call (Call_refresh env) h =
     (case update_device_attach_state env h of (r, h', es) \<Rightarrow> ((Some r, es), h'))"
| "exec_call (Call_readi rounds sz) h =
     (case bluezalsa_readi rounds h sz of
        Returned r h' es \<Rightarrow> ((Some r, es), h')
      | Blocked h' es \<Rightarrow> ((None, es), h'))"

fun run :: "call list \<Rightarrow> bluezalsa_handle \<Rightarrow> observation list" where
  "run [] h = []"
| "run (c # cs) h = (case exec_call c h of (ob, h') \<Rightarrow> ob # run cs h')"

section \<open>The PCM plug-in (src/asound/bluealsa-pcm-proxy.c)\<close>

subsection \<open>Data\<close>

text \<open>
  The states and directions of alsa-lib (\<open>snd_pcm_state_t\<close>, \<open>snd_pcm_stream_t\<close>), in the
  order of its header. \<open>snd_pcm_uframes_t\<close> is \<open>unsigned long\<close> and \<open>snd_pcm_sframes_t\<close>
  is \<open>long\<close>: 64 bits on the LP64 targets modelled here, as is \<open>size_t\<close>; \<open>unsigned int\<close>
  has 32 bits.
\<close>

datatype snd_pcm_state =
    SND_PCM_STATE_OPEN
  | SND_PCM_STATE_SETUP
  | SND_PCM_STATE_PREPARED
  | SND_PCM_STATE_RUNNING
  | SND_PCM_STATE_XRUN
  | SND_PCM_STATE_DRAINING
  | SND_PCM_STATE_PAUSED
  | SND_PCM_STATE_SUSPENDED
  | SND_PCM_STATE_DISCONNECTED

datatype snd_pcm_stream = SND_PCM_STREAM_PLAYBACK | SND_PCM_STREAM_CAPTURE

text \<open>
  \<open>struct bluealsa_pcm\<close> together with the fields of its \<open>snd_pcm_ioplug_t io\<close> that the
  code reads or writes: \<open>state\<close>, \<open>stream\<close>, \<open>appl_ptr\<close>, \<open>hw_ptr\<close>, \<open>buffer_size\<close>,
  \<open>period_size\<close> and \<open>rate\<close> are \<open>io->state\<close> and so on. \<open>event_count\<close> is the counter
  of the eventfd object behind \<open>pcm->event_fd\<close>: \<open>eventfd_write\<close> adds to it (the kernel
  never lets it wrap: such a write would block), \<open>eventfd_read\<close> returns it and resets it
  to 0. \<open>has_transport\<close> says that \<open>pcm->transport\<close> is not null. \<open>counter\<close> is the
  \<open>static int counter\<close> of \<open>bluealsa_proxy_delay\<close>.
\<close>

record bluealsa_pcm =
  state :: snd_pcm_state
  stream :: snd_pcm_stream
  appl_ptr :: "64 word"
  hw_ptr :: "64 word"
  buffer_size :: "64 word"
  period_size :: "64 word"
  rate :: "32 word"
  fd :: int
  event_count :: "64 word"
  has_transport :: bool
  pcm_fd :: int
  io_ptr :: "64 word"
  io_started :: bool
  delay :: "64 word"
  delay_ex :: "64 word"
  frame_size :: "64 word"
  io_hw_boundary :: "64 word"
  io_hw_ptr :: "64 word"
  counter :: "32 word"

datatype pcm_effect =
    Event_write "64 word"
  | Transport_close int
  | Fd_close int


subsection \<open>close_transport and the exit of the worker\<close>

definition close_transport :: "bluealsa_pcm \<Rightarrow> bluealsa_pcm \<times> pcm_effect list" where
  "close_transport pcm =
     (if \<not> has_transport pcm then (pcm, [])
      else (pcm\<lparr>pcm_fd := -1\<rparr>, [Transport_close (fd pcm), Fd_close (pcm_fd pcm)]))"

text \<open>What one pass of the loop \<open>for (;;)\<close> of \<open>io_thread\<close> comes to.\<close>

datatype period_outcome =
    Published bluealsa_pcm nat "pcm_effect list"
  | Rewait bluealsa_pcm nat
  | Exited bluealsa_pcm "pcm_effect list"
  | Suspended bluealsa_pcm
  | Stalled bluealsa_pcm nat

text \<open>
  \<open>Published pcm n es\<close>: the pass reached the label \<open>sync\<close>, stored the pointers and wrote
  the event, after the FIFO calls moved \<open>n\<close> bytes. \<open>Rewait pcm n\<close>: it left for the label
  \<open>wait_pcm_fd\<close>. \<open>Exited\<close>: it went through the label \<open>final\<close> and the thread returned.
  \<open>Suspended\<close>: the thread is inside \<open>sigwait\<close>. \<open>Stalled\<close>: it is inside a \<open>read\<close> or
  \<open>write\<close> that has not returned.
\<close>

definition sentinel :: "64 word" where "sentinel = 0xDEAD0000"

definition io_thread_final :: "bluealsa_pcm \<Rightarrow> period_outcome" where
  "io_thread_final pcm =
     (case close_transport pcm of
        (pcm', es) \<Rightarrow>
          Exited (pcm'\<lparr>event_count := event_count pcm' + sentinel\<rparr>)
                 (es @ [Event_write sentinel]))"

subsection \<open>One period\<close>

text \<open>
  Lines 213 to 225: the number of frames of this pass, and a pointer brought back below its
  bound by one subtraction.
\<close>

definition period_frames :: "bluealsa_pcm \<Rightarrow> 64 word" where
  "period_frames pcm =
     (if buffer_size pcm - io_ptr pcm < period_size pcm
      then buffer_size pcm - io_ptr pcm else period_size pcm)"

definition wrap_at :: "64 word \<Rightarrow> 64 word \<Rightarrow> 64 word" where
  "wrap_at p bound = (if p \<ge> bound then p - bound else p)"

definition next_io_ptr :: "bluealsa_pcm \<Rightarrow> 64 word" where
  "next_io_ptr pcm = wrap_at (io_ptr pcm + period_frames pcm) (buffer_size pcm)"

definition next_hw_ptr :: "bluealsa_pcm \<Rightarrow> 64 word" where
  "next_hw_ptr pcm = wrap_at (io_hw_ptr pcm + period_frames pcm) (io_hw_boundary pcm)"

datatype loop_result =
    Loop_done int nat
  | Loop_fatal nat
  | Loop_blocked nat

text \<open>
  The read loop of lines 231 to 241, over the answers of \<open>read\<close>: \<open>len\<close> bytes are still
  wanted, \<open>ret\<close> is the local of that name, \<open>moved\<close> counts the bytes read so far. A read
  never returns more than it was asked for.
\<close>

fun read_period :: "io_res list \<Rightarrow> 64 word \<Rightarrow> int \<Rightarrow> nat \<Rightarrow> loop_result" where
  "read_period [] len ret moved = (if len = 0 then Loop_done ret moved else Loop_blocked moved)"
| "read_period (r # rs) len ret moved =
     (if len = 0 then Loop_done ret moved
      else
        (case r of
           Eintr \<Rightarrow> read_period rs len (-1) moved
         | Eother \<Rightarrow> Loop_fatal moved
         | Ret n \<Rightarrow>
             if n = 0 then Loop_done 0 moved
             else (let k = min n (unat len)
                   in read_period rs (len - of_nat k) (int k) (moved + k))))"

text \<open>
  The write loop of lines 261 to 271, a \<open>do ... while (len != 0)\<close>: the \<open>continue\<close> after
  \<open>EINTR\<close> goes to the test of \<open>len\<close>.
\<close>

fun write_period :: "io_res list \<Rightarrow> 64 word \<Rightarrow> nat \<Rightarrow> loop_result" where
  "write_period [] len moved = Loop_blocked moved"
| "write_period (r # rs) len moved =
     (case r of
        Eintr \<Rightarrow> if len \<noteq> 0 then write_period rs len moved else Loop_done (-1) moved
      | Eother \<Rightarrow> Loop_fatal moved
      | Ret n \<Rightarrow>
          (let k = min n (unat len)
           in if len - of_nat k \<noteq> 0 then write_period rs (len - of_nat k) (moved + k)
              else Loop_done (int k) (moved + k)))"

text \<open>The label \<open>sync\<close>: the two stores and the event.\<close>

definition publish :: "bluealsa_pcm \<Rightarrow> 64 word \<Rightarrow> 64 word \<Rightarrow> nat \<Rightarrow> period_outcome" where
  "publish pcm p hw moved =
     Published (pcm\<lparr>io_ptr := p, io_hw_ptr := hw, event_count := event_count pcm + 1\<rparr>)
               moved [Event_write 1]"

text \<open>
  One pass of the loop. \<open>sigio\<close> says whether a signal of the set is pending for the thread
  when it reaches \<open>sigwait\<close> (\<open>bluealsa_proxy_start\<close> and \<open>bluealsa_proxy_pause\<close> send
  \<open>SIGIO\<close>); \<open>rs\<close> are the answers of the FIFO to the calls of this pass.
\<close>

definition io_thread_period :: "bool \<Rightarrow> io_res list \<Rightarrow> bluealsa_pcm \<Rightarrow> period_outcome" where
  "io_thread_period sigio rs pcm =
     (if state pcm = SND_PCM_STATE_DISCONNECTED then io_thread_final pcm
      else if state pcm \<noteq> SND_PCM_STATE_RUNNING \<and> state pcm \<noteq> SND_PCM_STATE_DRAINING
              \<and> \<not> sigio then Suspended pcm
      else
        (let len = period_frames pcm * frame_size pcm in
         if stream pcm = SND_PCM_STREAM_CAPTURE then
           (case read_period rs len 0 0 of
              Loop_done ret moved \<Rightarrow>
                if ret = 0 then Rewait pcm moved
                else publish pcm (next_io_ptr pcm) (next_hw_ptr pcm) moved
            | Loop_fatal moved \<Rightarrow> io_thread_final pcm
            | Loop_blocked moved \<Rightarrow> Stalled pcm moved)
         else if next_hw_ptr pcm > appl_ptr pcm then
           publish (pcm\<lparr>state := SND_PCM_STATE_XRUN\<rparr>) (-1) (next_hw_ptr pcm) 0
         else
           (case write_period rs len 0 of
              Loop_done ret moved \<Rightarrow> publish pcm (next_io_ptr pcm) (next_hw_ptr pcm) moved
            | Loop_fatal moved \<Rightarrow> io_thread_final pcm
            | Loop_blocked moved \<Rightarrow> Stalled pcm moved)))"

fun outcome_pcm :: "period_outcome \<Rightarrow> bluealsa_pcm" where
  "outcome_pcm (Published pcm n es) = pcm"
| "outcome_pcm (Rewait pcm n) = pcm"
| "outcome_pcm (Exited pcm es) = pcm"
| "outcome_pcm (Suspended pcm) = pcm"
| "outcome_pcm (Stalled pcm n) = pcm"



subsection \<open>Callbacks\<close>








section \<open>Auxiliary definitions and example values\<close>

fun outcome_map :: "(bluezalsa_handle \<Rightarrow> bluezalsa_handle) \<Rightarrow> readi_outcome \<Rightarrow> readi_outcome" where
  "outcome_map f (Returned r h es) = Returned r (f h) es"
| "outcome_map f (Blocked h es) = Blocked (f h) es"

fun outcome_handle :: "readi_outcome \<Rightarrow> bluezalsa_handle" where
  "outcome_handle (Returned r h es) = h"
| "outcome_handle (Blocked h es) = h"

text \<open>
  A pass of \<open>bluezalsa_readi\<close> in which \<open>poll\<close> reports data on \<open>snd_fd\<close> only and the read
  of \<open>snd_fd\<close> then fails.
\<close>

definition failing_read :: "poll_round \<Rightarrow> bool" where
  "failing_read r =
     (poll_res r > 0 \<and> snd_revents r AND POLLHUP = 0 \<and> snd_revents r AND POLLIN \<noteq> 0
      \<and> ev_revents r AND POLLIN = 0 \<and> (snd_read r = Eintr \<or> snd_read r = Eother))"

subsection \<open>Values for the device monitor\<close>

text \<open>
  Three transports, a bound handle with an open FIFO, a fresh handle, two sets of answers of
  the daemon, and three passes of \<open>bluezalsa_readi\<close>: a hang-up, data, and a failing read.
\<close>

definition ex_bound :: bdaddr where
  "ex_bound = 0xAABBCCDDEEFF"

definition ex_sco :: ba_msg_transport where
  "ex_sco = \<lparr>t_addr = 0xAABBCCDDEEFF, t_type = BA_SCO, t_stream = BA_PCM_STREAM_CAPTURE,
             t_codec = 0, t_channels = 1, t_sampling = 8000\<rparr>"

definition ex_other :: ba_msg_transport where
  "ex_other = \<lparr>t_addr = 0x112233445566, t_type = BA_A2DP, t_stream = BA_PCM_STREAM_CAPTURE,
               t_codec = 0, t_channels = 2, t_sampling = 44100\<rparr>"

definition ex_a2dp :: ba_msg_transport where
  "ex_a2dp = \<lparr>t_addr = 0xAABBCCDDEEFF, t_type = BA_A2DP, t_stream = BA_PCM_STREAM_DUPLEX,
              t_codec = 0, t_channels = 2, t_sampling = 44100\<rparr>"

definition ex_attached :: bluezalsa_handle where
  "ex_attached = \<lparr>ba_fd = 3, event_fd = 4, snd_fd = 7, client_event_fd = 5,
                  addr = Some 0xAABBCCDDEEFF, type = BA_A2DP, transport = ex_a2dp\<rparr>"

definition ex_fresh :: bluezalsa_handle where
  "ex_fresh = \<lparr>ba_fd = 3, event_fd = 4, snd_fd = -1, client_event_fd = 5,
               addr = None, type = BA_TYPE_NULL, transport = ex_sco\<rparr>"

definition ex_env :: ba_env where
  "ex_env = \<lparr>str2ba = (\<lambda>s. if s = ''AA:BB:CC:DD:EE:FF'' then Some 0xAABBCCDDEEFF else None),
             malloc_ok = True, get_transports = Some [ex_sco, ex_other],
             open_transport = 9, stack_u = 0\<rparr>"


definition ex_data :: poll_round where
  "ex_data = \<lparr>poll_res = 1, snd_revents = 0x0001, ev_revents = 0, ev_reads = [],
              snd_read = Ret 8\<rparr>"

definition ex_broken :: poll_round where
  "ex_broken = \<lparr>poll_res = 1, snd_revents = 0x0001, ev_revents = 0, ev_reads = [],
                snd_read = Eother\<rparr>"


subsection \<open>Values for the PCM plug-in\<close>



text \<open>
  A playback stream of 48000 Hz stereo with a period of 960 frames and a buffer of 4800, just
  prepared and started; the boundary is the one alsa-lib computes for this buffer
  (4800 * 2^50). Then the stream with a full buffer whose consumer pointer has passed the
  boundary, the stream with a full buffer at the start, the same as a capture stream, the
  stream after an underrun, and the stream with a delay already known.
\<close>

definition ex_playback :: bluealsa_pcm where
  "ex_playback =
     \<lparr>state = SND_PCM_STATE_RUNNING, stream = SND_PCM_STREAM_PLAYBACK, appl_ptr = 0,
      hw_ptr = 0, buffer_size = 4800, period_size = 960, rate = 48000, fd = 3,
      event_count = 0, has_transport = True, pcm_fd = 6, io_ptr = 0, io_started = True,
      delay = 0, delay_ex = 0, frame_size = 4, io_hw_boundary = 5404319552844595200,
      io_hw_ptr = 0, counter = 0\<rparr>"

definition ex_wrap :: bluealsa_pcm where
  "ex_wrap = ex_playback\<lparr>appl_ptr := 2880, io_ptr := 2880, io_hw_ptr := 5404319552844593280\<rparr>"

definition ex_fed :: bluealsa_pcm where
  "ex_fed = ex_playback\<lparr>appl_ptr := 4800\<rparr>"

definition ex_capture :: bluealsa_pcm where
  "ex_capture = ex_playback\<lparr>stream := SND_PCM_STREAM_CAPTURE\<rparr>"

definition ex_xrun :: bluealsa_pcm where
  "ex_xrun = ex_fed\<lparr>state := SND_PCM_STATE_XRUN\<rparr>"

definition ex_late :: bluealsa_pcm where
  "ex_late = ex_fed\<lparr>delay := 5, delay_ex := 7, counter := 4799\<rparr>"



lemmas ex_defs = ex_playback_def ex_fed_def ex_capture_def ex_wrap_def ex_xrun_def ex_late_def

lemmas period_defs = io_thread_period_def next_hw_ptr_def next_io_ptr_def period_frames_def
  wrap_at_def publish_def io_thread_final_def close_transport_def sentinel_def

section \<open>Properties of the device monitor\<close>

subsection \<open>The matching loop\<close>

lemma match_from_Some:
  "match_from a ty first ts k = Some i \<Longrightarrow>
     \<exists>j. i = k + j \<and> j < length ts \<and> t_type (ts ! j) = ty
     \<and> (t_stream (ts ! j) = BA_PCM_STREAM_CAPTURE \<or> t_stream (ts ! j) = BA_PCM_STREAM_DUPLEX)
     \<and> t_addr first = a"
proof (induction ts arbitrary: k)
  case Nil
  then show ?case by simp
next
  case (Cons t ts)
  show ?case
  proof (cases "match_from a ty first ts (Suc k) = Some i")
    case True
    from Cons.IH [OF True] obtain j where
      j: "i = Suc k + j" "j < length ts" "t_type (ts ! j) = ty"
         "t_stream (ts ! j) = BA_PCM_STREAM_CAPTURE \<or> t_stream (ts ! j) = BA_PCM_STREAM_DUPLEX"
         "t_addr first = a"
      by blast
    then have "i = k + Suc j \<and> Suc j < length (t # ts) \<and> t_type ((t # ts) ! Suc j) = ty
      \<and> (t_stream ((t # ts) ! Suc j) = BA_PCM_STREAM_CAPTURE
          \<or> t_stream ((t # ts) ! Suc j) = BA_PCM_STREAM_DUPLEX)
      \<and> t_addr first = a"
      by simp
    then show ?thesis by blast
  next
    case False
    with Cons.prems have "i = k + 0 \<and> 0 < length (t # ts) \<and> t_type ((t # ts) ! 0) = ty
      \<and> (t_stream ((t # ts) ! 0) = BA_PCM_STREAM_CAPTURE
          \<or> t_stream ((t # ts) ! 0) = BA_PCM_STREAM_DUPLEX)
      \<and> t_addr first = a"
      by (auto split: if_splits)
    then show ?thesis by blast
  qed
qed

lemma find_match_Some:
  assumes "find_match a ty ts = Some i"
  shows "i < length ts \<and> t_type (ts ! i) = ty
     \<and> (t_stream (ts ! i) = BA_PCM_STREAM_CAPTURE \<or> t_stream (ts ! i) = BA_PCM_STREAM_DUPLEX)
     \<and> t_addr (ts ! 0) = a"
proof (cases ts)
  case Nil
  with assms show ?thesis by (simp add: find_match_def)
next
  case (Cons t ts')
  with assms have "match_from a ty t ts 0 = Some i"
    by (simp add: find_match_def)
  from match_from_Some [OF this] show ?thesis
    by (auto simp: Cons)
qed

text \<open>
  Claim C2. The refresh operation is to select the first transport whose type is the bound
  type, whose stream is capture or duplex and whose address is the bound address, and never
  a transport with another address. The loop tests the address of the first element of the
  array (\<open>transports->addr\<close>) for every index: with the bound device first in the list
  under another profile, the transport of another device is selected and opened, and the
  bound address is stamped onto the copy kept in the handle.
\<close>

theorem refresh_selects_other_address:
  "find_match ex_bound BA_A2DP [ex_sco, ex_other] = Some 1
   \<and> t_addr ex_other \<noteq> ex_bound
   \<and> spec_match_from ex_bound BA_A2DP [ex_sco, ex_other] 0 = None
   \<and> update_device_attach_state ex_env (ex_attached\<lparr>snd_fd := -1\<rparr>) =
       (0, ex_attached\<lparr>snd_fd := 9, transport := ex_other\<lparr>t_addr := ex_bound\<rparr>\<rparr>,
        [Lock, Daemon_get_transports 3, Daemon_open_transport 3 ex_other,
         Snd_fd_store (-1) 9, Notify 0, Unlock])"
  by (simp add: find_match_def update_device_attach_state_def ex_bound_def ex_sco_def
      ex_other_def ex_attached_def ex_env_def)

subsection \<open>bluezalsa_set_device\<close>

text \<open>
  Claim C8. With an address bound and \<open>snd_fd\<close> open, \<open>set_device\<close> is to close the FIFO
  descriptor before rebinding. No call of \<open>bluezalsa_set_device\<close> on a handle with a bound
  address closes any descriptor: the release stores -1 in \<open>snd_fd\<close> and asks the daemon to
  close the transport, and the refresh that may follow finds \<open>snd_fd\<close> already -1.
\<close>

theorem set_device_leaves_fifo_open:
  assumes "addr h \<noteq> None" and "bluezalsa_set_device env h a ty = (r, h', es)"
  shows "\<not> closed_by es (snd_fd h)"
  using assms
  by (auto simp: bluezalsa_set_device_def release_bound_def update_device_attach_state_def
      device_detach_def closed_by_def Let_def split: if_splits option.splits prod.splits)

theorem set_device_leaves_fifo_open_witness:
  "addr ex_attached \<noteq> None
   \<and> bluezalsa_set_device ex_env ex_attached None BA_A2DP =
       (0, ex_attached\<lparr>snd_fd := -1, addr := None\<rparr>,
        [Lock, Free_addr, Daemon_close_transport 3 ex_a2dp, Snd_fd_store 7 (-1), Unlock])
   \<and> snd_fd ex_attached = 7
   \<and> \<not> closed_by
         [Lock, Free_addr, Daemon_close_transport 3 ex_a2dp, Snd_fd_store 7 (-1), Unlock] 7"
proof -
  have a: "addr ex_attached \<noteq> None"
    by (simp add: ex_attached_def)
  have e: "bluezalsa_set_device ex_env ex_attached None BA_A2DP =
       (0, ex_attached\<lparr>snd_fd := -1, addr := None\<rparr>,
        [Lock, Free_addr, Daemon_close_transport 3 ex_a2dp, Snd_fd_store 7 (-1), Unlock])"
    by (simp add: bluezalsa_set_device_def release_bound_def ex_attached_def)
  have f: "snd_fd ex_attached = 7"
    by (simp add: ex_attached_def)
  from set_device_leaves_fifo_open [OF a e] a e f show ?thesis
    by simp
qed



subsection \<open>Stores to snd_fd and notifications\<close>










subsection \<open>readi\<close>

text \<open>
  Claim C6, as stated: on POLLIN the read asks for frames * 2 * channels bytes. With a stereo
  transport and 4 frames the read asks for 8 bytes, not 16.
\<close>

theorem readi_reads_two_bytes_per_frame:
  "bluezalsa_readi [ex_data] ex_attached 4 = Returned 8 ex_attached [Poll 7 5, Read_fd 7 8]
   \<and> t_channels (transport ex_attached) = 2
   \<and> (8 :: 64 word) \<noteq> 4 * 2 * 2"
  by (simp add: bluezalsa_readi_def ex_data_def ex_attached_def ex_a2dp_def POLLHUP_def
      POLLIN_def)

lemma readi_all_failing:
  "\<forall>q \<in> set qs. failing_read q \<Longrightarrow> \<exists>es'. readi_again qs sz ret h es = Blocked h es'"
proof (induction qs arbitrary: es)
  case Nil
  show ?case by simp
next
  case (Cons q qs)
  then have f: "failing_read q" and rest: "\<forall>q \<in> set qs. failing_read q"
    by simp_all
  from Cons.IH [OF rest] f show ?case
    by (auto simp: failing_read_def)
qed

text \<open>
  Claim C6, amended. When \<open>poll\<close> reports data on \<open>snd_fd\<close> (and no hang-up, and the
  event descriptor is either not readable or yields its eight bytes), the call reads at most
  \<open>size * 2\<close> bytes from \<open>snd_fd\<close>, whatever the number of channels; what the read
  returns is returned to the caller, unless it is an error: then the call goes back to
  \<open>poll\<close> with the rest of what happens. A call that meets only failing reads never returns.
\<close>

theorem readi_pollin:
  assumes "poll_res r \<noteq> -1" and "poll_res r \<noteq> 0" and "snd_revents r AND POLLHUP = 0"
    and "snd_revents r AND POLLIN \<noteq> 0"
  shows "(ev_revents r AND POLLIN = 0 \<longrightarrow>
           readi_again (r # rs) sz ret h es =
             (case snd_read r of
                Ret n \<Rightarrow> Returned (int n) h
                  (es @ [Poll (snd_fd h) (client_event_fd h), Read_fd (snd_fd h) (sz * 2)])
              | _ \<Rightarrow> readi_again rs sz ret h
                  (es @ [Poll (snd_fd h) (client_event_fd h), Read_fd (snd_fd h) (sz * 2)])))
     \<and> (ev_revents r AND POLLIN \<noteq> 0 \<and> read_retry (ev_reads r) = Some (Ret 8, n) \<longrightarrow>
           readi_again (r # rs) sz ret h es =
             (case snd_read r of
                Ret m \<Rightarrow> Returned (int m) h
                  (es @ [Poll (snd_fd h) (client_event_fd h)]
                      @ replicate n (Read_fd (client_event_fd h) 8)
                      @ [Read_fd (snd_fd h) (sz * 2)])
              | _ \<Rightarrow> readi_again rs sz 8 h
                  (es @ [Poll (snd_fd h) (client_event_fd h)]
                      @ replicate n (Read_fd (client_event_fd h) 8)
                      @ [Read_fd (snd_fd h) (sz * 2)])))
     \<and> ((\<forall>q \<in> set qs. failing_read q) \<longrightarrow> (\<exists>es'. bluezalsa_readi qs h sz = Blocked h es'))"
  using assms readi_all_failing [of qs sz 0 h "[]"]
  by (auto simp: bluezalsa_readi_def split: io_res.splits)

theorem readi_pollin_witness:
  "poll_res ex_broken \<noteq> -1 \<and> poll_res ex_broken \<noteq> 0 \<and> snd_revents ex_broken AND POLLHUP = 0
   \<and> snd_revents ex_broken AND POLLIN \<noteq> 0 \<and> ev_revents ex_broken AND POLLIN = 0
   \<and> readi_again [ex_broken, ex_data] 4 0 ex_attached [] =
       Returned 8 ex_attached [Poll 7 5, Read_fd 7 8, Poll 7 5, Read_fd 7 8]
   \<and> failing_read ex_broken
   \<and> bluezalsa_readi [ex_broken, ex_broken] ex_attached 4 =
       Blocked ex_attached [Poll 7 5, Read_fd 7 8, Poll 7 5, Read_fd 7 8]"
proof -
  have a: "poll_res ex_broken \<noteq> -1" "poll_res ex_broken \<noteq> 0"
    "snd_revents ex_broken AND POLLHUP = 0" "snd_revents ex_broken AND POLLIN \<noteq> 0"
    by (simp_all add: ex_broken_def POLLHUP_def POLLIN_def)
  have b: "ev_revents ex_broken AND POLLIN = 0" "failing_read ex_broken"
    by (simp_all add: ex_broken_def failing_read_def POLLHUP_def POLLIN_def)
  have c: "readi_again [ex_data] 4 0 ex_attached [Poll 7 5, Read_fd 7 8] =
       Returned 8 ex_attached [Poll 7 5, Read_fd 7 8, Poll 7 5, Read_fd 7 8]"
    by (simp add: ex_data_def ex_attached_def POLLHUP_def POLLIN_def)
  have d: "bluezalsa_readi [ex_broken, ex_broken] ex_attached 4 =
       Blocked ex_attached [Poll 7 5, Read_fd 7 8, Poll 7 5, Read_fd 7 8]"
    by (simp add: bluezalsa_readi_def ex_broken_def ex_attached_def POLLHUP_def POLLIN_def)
  have e: "snd_read ex_broken = Eother" "snd_fd ex_attached = 7" "client_event_fd ex_attached = 5"
    by (simp_all add: ex_broken_def ex_attached_def)
  from readi_pollin [OF a, of "[ex_data]" 4 0 ex_attached "[]" 0 "[ex_broken, ex_broken]"] a b c d e
  show ?thesis
    by simp
qed

subsection \<open>The type field of a handle without an address\<close>

lemma device_detach_type:
  "device_detach (h\<lparr>type := x\<rparr>) =
     (case device_detach h of (r, h', es) \<Rightarrow> (r, h'\<lparr>type := x\<rparr>, es))"
  by (simp add: device_detach_def)

lemma device_detach_addr:
  "device_detach h = (r, h', es) \<Longrightarrow> addr h' = addr h"
  by (auto simp: device_detach_def split: if_splits)

lemma readi_again_type:
  "readi_again rs sz ret (h\<lparr>type := x\<rparr>) es =
     outcome_map (\<lambda>k. k\<lparr>type := x\<rparr>) (readi_again rs sz ret h es)"
proof (induction rs arbitrary: ret h es)
  case Nil
  show ?case by simp
next
  case (Cons r rs)
  show ?case
    by (simp add: Cons.IH device_detach_type Let_def
        split: prod.splits option.splits io_res.splits)
qed

lemma readi_again_addr:
  "addr (outcome_handle (readi_again rs sz ret h es)) = addr h"
proof (induction rs arbitrary: ret h es)
  case Nil
  show ?case by simp
next
  case (Cons r rs)
  show ?case
    by (auto simp: Cons.IH Let_def dest: device_detach_addr
        split: prod.splits option.splits io_res.splits)
qed

text \<open>
  While no address is bound, a call sees nothing of the type field: it returns the same value
  with the same events, and the handles after it are equal or again differ in that field only,
  still with no address.
\<close>

lemma exec_call_type:
  assumes "addr h = None"
  shows "fst (exec_call c (h\<lparr>type := x\<rparr>)) = fst (exec_call c h) \<and>
         (snd (exec_call c (h\<lparr>type := x\<rparr>)) = snd (exec_call c h) \<or>
          addr (snd (exec_call c h)) = None \<and>
          snd (exec_call c (h\<lparr>type := x\<rparr>)) = (snd (exec_call c h))\<lparr>type := x\<rparr>)"
proof (cases c)
  case (Call_set_device env a ty)
  then show ?thesis using assms
    by (auto simp: bluezalsa_set_device_def release_bound_def split: option.splits prod.splits)
next
  case (Call_refresh env)
  then show ?thesis using assms
    by (simp add: update_device_attach_state_def)
next
  case (Call_readi rounds sz)
  have a: "addr (outcome_handle (readi_again rounds sz 0 h [])) = None"
    using assms by (simp add: readi_again_addr)
  show ?thesis using a
    by (cases "readi_again rounds sz 0 h []")
       (simp_all add: Call_readi bluezalsa_readi_def readi_again_type)
qed

lemma run_type: "addr h = None \<Longrightarrow> run cs (h\<lparr>type := x\<rparr>) = run cs h"
proof (induction cs arbitrary: h)
  case Nil
  show ?case by simp
next
  case (Cons c cs)
  obtain ob h1 where e1: "exec_call c h = (ob, h1)"
    by (cases "exec_call c h")
  obtain ob' h2 where e2: "exec_call c (h\<lparr>type := x\<rparr>) = (ob', h2)"
    by (cases "exec_call c (h\<lparr>type := x\<rparr>)")
  from exec_call_type [OF Cons.prems, of c x] e1 e2
  have ob: "ob' = ob" and hh: "h2 = h1 \<or> addr h1 = None \<and> h2 = h1\<lparr>type := x\<rparr>"
    by simp_all
  from hh have "run cs h2 = run cs h1"
    using Cons.IH by auto
  then show ?case
    by (simp add: e1 e2 ob)
qed

text \<open>
  Claim C9. On a handle with no bound address (and so, whatever \<open>snd_fd\<close> holds, also when
  it is -1) and for a valid type, \<open>set_device(null, t)\<close> returns 0 and does nothing outside
  the handle but lock and unlock the mutex. In the handle it stores \<open>t\<close> in the type field
  and changes nothing else; that store cannot be observed: every sequence of calls of
  \<open>set_device\<close>, of the refresh and of \<open>readi\<close> returns the same values with the same
  events on the handle after the call as on the handle before it.
\<close>

theorem set_device_null_detached:
  assumes "addr h = None" and "snd_fd h = -1" and "ty = BA_A2DP \<or> ty = BA_SCO"
  shows "bluezalsa_set_device env h None ty = (0, h\<lparr>type := ty\<rparr>, [Lock, Unlock])
         \<and> run cs (h\<lparr>type := ty\<rparr>) = run cs h"
  using assms by (auto simp: bluezalsa_set_device_def release_bound_def run_type)

theorem set_device_null_detached_witness:
  "addr ex_fresh = None \<and> snd_fd ex_fresh = -1
   \<and> bluezalsa_set_device ex_env ex_fresh None BA_A2DP =
       (0, ex_fresh\<lparr>type := BA_A2DP\<rparr>, [Lock, Unlock])
   \<and> run [Call_refresh ex_env,
          Call_set_device ex_env (Some ''AA:BB:CC:DD:EE:FF'') BA_SCO,
          Call_readi [ex_data] 4] (ex_fresh\<lparr>type := BA_A2DP\<rparr>) =
      run [Call_refresh ex_env,
          Call_set_device ex_env (Some ''AA:BB:CC:DD:EE:FF'') BA_SCO,
          Call_readi [ex_data] 4] ex_fresh"
proof -
  have a: "addr ex_fresh = None" "snd_fd ex_fresh = -1"
    by (simp_all add: ex_fresh_def)
  have t: "BA_A2DP = BA_A2DP \<or> BA_A2DP = BA_SCO"
    by simp
  from set_device_null_detached [OF a t] a show ?thesis
    by simp
qed

section \<open>Properties of the PCM plug-in\<close>

subsection \<open>Arithmetic of the pointers\<close>

lemma unat_sub_of_nat:
  "k \<le> unat (len :: 64 word) \<Longrightarrow> unat (len - of_nat k) = unat len - k"
proof -
  assume k: "k \<le> unat len"
  have u: "unat (word_of_nat k :: 64 word) = k"
    using k by (rule le_unat_uoi)
  then have "(word_of_nat k :: 64 word) \<le> len"
    using k by (simp add: word_le_nat_alt)
  then show ?thesis
    using u by (simp add: unat_sub)
qed

lemma wrap_at_mod:
  assumes "p < bound" and "n \<le> bound" and "unat bound \<le> 2 ^ 63"
  shows "unat (wrap_at (p + n) bound) = (unat p + unat n) mod unat bound"
proof -
  have p: "unat p < unat bound" using assms(1) by (simp add: word_less_nat_alt)
  have n: "unat n \<le> unat bound" using assms(2) by (simp add: word_le_nat_alt)
  have s: "unat p + unat n < 2 ^ 64" using p n assms(3) by simp
  then have u: "unat (p + n) = unat p + unat n"
    by (simp add: unat_add_lem [THEN iffD1])
  show ?thesis
  proof (cases "p + n \<ge> bound")
    case True
    then have ge: "unat bound \<le> unat p + unat n" using u by (simp add: word_le_nat_alt)
    have "unat (p + n - bound) = unat p + unat n - unat bound"
      using True u by (simp add: unat_sub)
    moreover have "(unat p + unat n) mod unat bound = unat p + unat n - unat bound"
      using ge p n by (simp add: mod_if)
    ultimately show ?thesis using True by (simp add: wrap_at_def)
  next
    case False
    then have "unat p + unat n < unat bound" using u by (simp add: word_le_nat_alt)
    then show ?thesis using False u by (simp add: wrap_at_def)
  qed
qed

lemma next_io_ptr_cases:
  assumes "io_ptr pcm \<le> buffer_size pcm"
  shows "next_io_ptr pcm = io_ptr pcm + period_size pcm \<or> next_io_ptr pcm = 0"
proof (cases "buffer_size pcm - io_ptr pcm < period_size pcm")
  case True
  then show ?thesis by (simp add: next_io_ptr_def period_frames_def wrap_at_def)
next
  case False
  then have f: "period_frames pcm = period_size pcm" by (simp add: period_frames_def)
  have le: "period_size pcm \<le> buffer_size pcm - io_ptr pcm" using False by simp
  have "unat (buffer_size pcm - io_ptr pcm) = unat (buffer_size pcm) - unat (io_ptr pcm)"
    using assms by (simp add: unat_sub)
  with le have l: "unat (period_size pcm) \<le> unat (buffer_size pcm) - unat (io_ptr pcm)"
    by (simp add: word_le_nat_alt)
  have i: "unat (io_ptr pcm) \<le> unat (buffer_size pcm)" using assms by (simp add: word_le_nat_alt)
  have "unat (io_ptr pcm) + unat (period_size pcm) \<le> unat (buffer_size pcm)" using l i by simp
  moreover have "unat (buffer_size pcm) < 2 ^ 64" using unsigned_less [of "buffer_size pcm"] by simp
  ultimately have u: "unat (io_ptr pcm + period_size pcm) = unat (io_ptr pcm) + unat (period_size pcm)"
    by (simp add: unat_add_lem [THEN iffD1])
  show ?thesis
  proof (cases "io_ptr pcm + period_size pcm \<ge> buffer_size pcm")
    case True
    then have "unat (buffer_size pcm) \<le> unat (io_ptr pcm) + unat (period_size pcm)"
      using u by (simp add: word_le_nat_alt)
    with \<open>unat (io_ptr pcm) + unat (period_size pcm) \<le> unat (buffer_size pcm)\<close> u
    have "unat (io_ptr pcm + period_size pcm) = unat (buffer_size pcm)" by simp
    then have "io_ptr pcm + period_size pcm = buffer_size pcm" by (simp add: word_unat_eq_iff)
    then show ?thesis by (simp add: next_io_ptr_def f wrap_at_def)
  next
    case False
    then show ?thesis by (simp add: next_io_ptr_def f wrap_at_def)
  qed
qed

lemma period_frames_le:
  assumes "io_ptr pcm \<le> buffer_size pcm"
  shows "period_frames pcm \<le> buffer_size pcm"
proof -
  have "buffer_size pcm - io_ptr pcm \<le> buffer_size pcm"
    using assms by (simp add: word_sub_le)
  then show ?thesis
    by (auto simp: period_frames_def)
qed

lemma not_capture: "(s \<noteq> SND_PCM_STREAM_CAPTURE) = (s = SND_PCM_STREAM_PLAYBACK)"
  by (cases s) auto

subsection \<open>The transfer loops\<close>

lemma read_period_moved:
  "read_period rs len ret moved = Loop_done ret' moved' \<Longrightarrow> ret' \<noteq> 0 \<Longrightarrow>
     moved' = moved + unat len"
proof (induction rs arbitrary: len ret moved)
  case Nil
  then show ?case by (auto split: if_splits)
next
  case (Cons r rs)
  show ?case
  proof (cases "len = 0")
    case True
    with Cons.prems show ?thesis by simp
  next
    case False
    show ?thesis
    proof (cases r)
      case Eintr
      with Cons False show ?thesis by simp
    next
      case Eother
      with Cons.prems False show ?thesis by simp
    next
      case (Ret n)
      show ?thesis
      proof (cases "n = 0")
        case True
        with Cons.prems False Ret show ?thesis by simp
      next
        case n: False
        define k where "k = min n (unat len)"
        have k: "k \<le> unat len" by (simp add: k_def)
        from Cons.prems False Ret n
        have "read_period rs (len - of_nat k) (int k) (moved + k) = Loop_done ret' moved'"
          by (simp add: k_def Let_def)
        from Cons.IH [OF this Cons.prems(2)] k show ?thesis
          by (simp add: unat_sub_of_nat)
      qed
    qed
  qed
qed

lemma write_period_moved:
  "write_period rs len moved = Loop_done ret' moved' \<Longrightarrow> moved' = moved + unat len"
proof (induction rs arbitrary: len moved)
  case Nil
  then show ?case by simp
next
  case (Cons r rs)
  show ?case
  proof (cases r)
    case Eintr
    with Cons show ?thesis by (auto split: if_splits)
  next
    case Eother
    with Cons.prems show ?thesis by simp
  next
    case (Ret n)
    define k where "k = min n (unat len)"
    have k: "k \<le> unat len" by (simp add: k_def)
    show ?thesis
    proof (cases "len - of_nat k = 0")
      case True
      then have "unat (len - of_nat k) = 0" by simp
      with k have "k = unat len" by (simp add: unat_sub_of_nat)
      with Cons.prems Ret True show ?thesis by (simp add: k_def Let_def)
    next
      case False
      with Cons.prems Ret
      have "write_period rs (len - of_nat k) (moved + k) = Loop_done ret' moved'"
        by (simp add: k_def Let_def)
      from Cons.IH [OF this] k show ?thesis
        by (simp add: unat_sub_of_nat)
    qed
  qed
qed

subsection \<open>Underrun\<close>









subsection \<open>Publication of the pointers\<close>

lemma period_outcome_pointers:
  "io_thread_period sigio rs pcm = oc \<Longrightarrow>
     (case oc of
        Published p n es \<Rightarrow>
          (stream pcm = SND_PCM_STREAM_PLAYBACK \<and> appl_ptr pcm < next_hw_ptr pcm \<and> n = 0
             \<and> io_ptr p = -1 \<and> io_hw_ptr p = next_hw_ptr pcm)
          \<or> (n = unat (period_frames pcm * frame_size pcm) \<and> io_ptr p = next_io_ptr pcm
             \<and> io_hw_ptr p = next_hw_ptr pcm)
      | other \<Rightarrow> io_ptr (outcome_pcm other) = io_ptr pcm
                 \<and> io_hw_ptr (outcome_pcm other) = io_hw_ptr pcm)"
  by (auto simp: io_thread_period_def io_thread_final_def close_transport_def publish_def Let_def
      not_capture
      dest: read_period_moved write_period_moved
      split: if_splits loop_result.splits period_outcome.splits)

text \<open>
  Claim C4, as stated: the published pointers are updated only after the whole period's
  bytes have been transferred. On a playback stream that was started with nothing written
  (\<open>appl_ptr\<close> = 0), the first pass publishes \<open>io_ptr\<close> = -1 and \<open>io_hw_ptr\<close> = 960
  with no byte moved, of the 3840 bytes of the period.
\<close>

theorem underrun_publishes_without_transfer: "io_thread_period False [] ex_playback =
     Published (ex_playback\<lparr>state := SND_PCM_STATE_XRUN, io_ptr := -1, io_hw_ptr := 960,
                              event_count := 1\<rparr>) 0 [Event_write 1]
   \<and> unat (period_frames ex_playback * frame_size ex_playback) = 3840"
  by (simp add: io_thread_period_def ex_playback_def next_hw_ptr_def next_io_ptr_def
      period_frames_def wrap_at_def publish_def)

text \<open>
  Claim C4, amended. A pass of the worker that stores the published pointers has either
  transferred the whole period (\<open>frames * frame_size\<close> bytes, computed in \<open>size_t\<close>) and
  then stores the advanced pointers, or it is a playback pass that found an underrun: then
  it has transferred nothing and stores -1 in \<open>io_ptr\<close> and the advanced \<open>hw_ptr\<close>. Every
  other pass (a capture read that returned 0, a fatal I/O error, a wait) leaves both
  published pointers unchanged. The advanced \<open>io_ptr\<close> is \<open>io_ptr\<close> plus the frames of
  the period modulo \<open>buffer_size\<close>: either \<open>io_ptr + period_size\<close> or 0.
\<close>

theorem period_atomic:
  "(io_thread_period sigio rs pcm = Published p n es \<longrightarrow>
      (stream pcm = SND_PCM_STREAM_PLAYBACK \<and> appl_ptr pcm < next_hw_ptr pcm \<and> n = 0
         \<and> io_ptr p = -1 \<and> io_hw_ptr p = next_hw_ptr pcm)
      \<or> (n = unat (period_frames pcm * frame_size pcm) \<and> io_ptr p = next_io_ptr pcm
         \<and> io_hw_ptr p = next_hw_ptr pcm))
   \<and> ((\<forall>p' n' es'. io_thread_period sigio rs pcm \<noteq> Published p' n' es') \<longrightarrow>
        io_ptr (outcome_pcm (io_thread_period sigio rs pcm)) = io_ptr pcm
        \<and> io_hw_ptr (outcome_pcm (io_thread_period sigio rs pcm)) = io_hw_ptr pcm)
   \<and> (io_ptr pcm \<le> buffer_size pcm \<longrightarrow>
        next_io_ptr pcm = io_ptr pcm + period_size pcm \<or> next_io_ptr pcm = 0)
   \<and> (io_ptr pcm < buffer_size pcm \<and> unat (buffer_size pcm) \<le> 2 ^ 63 \<longrightarrow>
        unat (next_io_ptr pcm) =
          (unat (io_ptr pcm) + unat (period_frames pcm)) mod unat (buffer_size pcm))"
proof -
  have 1: "io_thread_period sigio rs pcm = Published p n es \<longrightarrow>
      (stream pcm = SND_PCM_STREAM_PLAYBACK \<and> appl_ptr pcm < next_hw_ptr pcm \<and> n = 0
         \<and> io_ptr p = -1 \<and> io_hw_ptr p = next_hw_ptr pcm)
      \<or> (n = unat (period_frames pcm * frame_size pcm) \<and> io_ptr p = next_io_ptr pcm
         \<and> io_hw_ptr p = next_hw_ptr pcm)"
    using period_outcome_pointers [of sigio rs pcm "Published p n es"] by simp
  have 2: "(\<forall>p' n' es'. io_thread_period sigio rs pcm \<noteq> Published p' n' es') \<longrightarrow>
        io_ptr (outcome_pcm (io_thread_period sigio rs pcm)) = io_ptr pcm
        \<and> io_hw_ptr (outcome_pcm (io_thread_period sigio rs pcm)) = io_hw_ptr pcm"
    using period_outcome_pointers [of sigio rs pcm "io_thread_period sigio rs pcm"]
    by (cases "io_thread_period sigio rs pcm") simp_all
  have 3: "io_ptr pcm \<le> buffer_size pcm \<longrightarrow>
        next_io_ptr pcm = io_ptr pcm + period_size pcm \<or> next_io_ptr pcm = 0"
    using next_io_ptr_cases [of pcm] by simp
  have 4: "io_ptr pcm < buffer_size pcm \<and> unat (buffer_size pcm) \<le> 2 ^ 63 \<longrightarrow>
        unat (next_io_ptr pcm) =
          (unat (io_ptr pcm) + unat (period_frames pcm)) mod unat (buffer_size pcm)"
    using wrap_at_mod [of "io_ptr pcm" "buffer_size pcm" "period_frames pcm"]
      period_frames_le [of pcm]
    by (simp add: next_io_ptr_def)
  from 1 2 3 4 show ?thesis by blast
qed

theorem period_atomic_witness:
  "io_thread_period False [Ret 1000, Eintr, Ret 5000] ex_capture =
       Published (ex_capture\<lparr>io_ptr := 960, io_hw_ptr := 960, event_count := 1\<rparr>) 3840
         [Event_write 1]
   \<and> 3840 = unat (period_frames ex_capture * frame_size ex_capture)
   \<and> next_io_ptr ex_capture = 960
   \<and> io_thread_period False [Ret 1000, Ret 0] ex_capture = Rewait ex_capture 1000
   \<and> io_thread_period False [Ret 1000, Eother] ex_capture =
       Exited (ex_capture\<lparr>pcm_fd := -1, event_count := 0xDEAD0000\<rparr>)
         [Transport_close 3, Fd_close 6, Event_write 0xDEAD0000]"
proof -
  have e: "io_thread_period False [Ret 1000, Eintr, Ret 5000] ex_capture =
       Published (ex_capture\<lparr>io_ptr := 960, io_hw_ptr := 960, event_count := 1\<rparr>) 3840
         [Event_write 1]"
    by (simp add: ex_defs period_defs)
  have c: "stream ex_capture \<noteq> SND_PCM_STREAM_PLAYBACK"
    by (simp add: ex_defs)
  note T = period_atomic [of False "[Ret 1000, Eintr, Ret 5000]" ex_capture
      "ex_capture\<lparr>io_ptr := 960, io_hw_ptr := 960, event_count := 1\<rparr>" 3840 "[Event_write 1]"]
  from T e c have m: "3840 = unat (period_frames ex_capture * frame_size ex_capture)"
    by blast
  from T e c have "io_ptr (ex_capture\<lparr>io_ptr := 960, io_hw_ptr := 960, event_count := 1\<rparr>)
      = next_io_ptr ex_capture"
    by blast
  then have n: "next_io_ptr ex_capture = 960"
    by simp
  have w: "io_thread_period False [Ret 1000, Ret 0] ex_capture = Rewait ex_capture 1000"
    by (simp add: ex_defs period_defs)
  have x: "io_thread_period False [Ret 1000, Eother] ex_capture =
       Exited (ex_capture\<lparr>pcm_fd := -1, event_count := 0xDEAD0000\<rparr>)
         [Transport_close 3, Fd_close 6, Event_write 0xDEAD0000]"
    by (simp add: ex_defs period_defs)
  from e m n w x show ?thesis
    by blast
qed

subsection \<open>The exit of the worker and poll_revents\<close>












subsection \<open>bluealsa_proxy_delay\<close>




end
